theory Spec2Isabelle
  imports Main "HOL-Library.Sublist"
begin

section \<open>Strings and regular expressions as the analysis service uses them\<close>

text \<open>
  Paths, URLs and error codes are Python \<open>str\<close> values, modelled as \<open>string\<close>: the model
  is of ASCII text, one \<open>char\<close> per character. \<open>str.lower\<close> maps the letters \<open>A\<close> to \<open>Z\<close>
  to \<open>a\<close> to \<open>z\<close> and keeps every other character.
\<close>

definition lower_char :: "char \<Rightarrow> char" where
  "lower_char c =
     (case map_of (zip ''ABCDEFGHIJKLMNOPQRSTUVWXYZ'' ''abcdefghijklmnopqrstuvwxyz'') c of
        Some d \<Rightarrow> d
      | None \<Rightarrow> c)"

definition lower :: "string \<Rightarrow> string" where
  "lower s = map lower_char s"

text \<open>\<open>s.split(sep)\<close> for a one-character separator: never the empty list.\<close>

fun split_sep :: "char \<Rightarrow> string \<Rightarrow> string list" where
  "split_sep sep [] = [[]]"
| "split_sep sep (c # cs) =
     (if c = sep then [] # split_sep sep cs
      else (case split_sep sep cs of
              [] \<Rightarrow> [[c]]
            | w # ws \<Rightarrow> (c # w) # ws))"

text \<open>\<open>s.count(ch)\<close> for a one-character argument.\<close>

definition count_char :: "char \<Rightarrow> string \<Rightarrow> nat" where
  "count_char ch s = length (filter (\<lambda>c. c = ch) s)"

text \<open>\<open>s.rstrip(ch)\<close> for a one-character argument.\<close>

definition rstrip :: "char \<Rightarrow> string \<Rightarrow> string" where
  "rstrip ch s = rev (dropWhile (\<lambda>c. c = ch) (rev s))"

text \<open>
  Every pattern of \<open>file_scorer.py\<close> is a literal text (its dots escaped), some with a final
  \<open>$\<close>. \<open>re.search\<close> of a literal finds it anywhere in the subject. Python's \<open>$\<close>
  (without \<open>re.MULTILINE\<close>) matches at the end of the subject and also just before a
  newline that ends the subject.
\<close>

datatype pattern = Contains string | EndsWith string

fun contains :: "string \<Rightarrow> string \<Rightarrow> bool" where
  "contains lit [] = (lit = [])"
| "contains lit (c # cs) = (prefix lit (c # cs) \<or> contains lit cs)"

fun re_search :: "pattern \<Rightarrow> string \<Rightarrow> bool" where
  "re_search (Contains lit) s = contains lit s"
| "re_search (EndsWith lit) s = (suffix lit s \<or> suffix (lit @ [CHR 0x0A]) s)"

section \<open>The file scorer (file\_scorer.py)\<close>

definition FILE_SCORES :: "(string \<times> int) list" where
  "FILE_SCORES =
    [(''package.json'', 100), (''requirements.txt'', 100), (''pyproject.toml'', 100),
     (''go.mod'', 100), (''cargo.toml'', 100), (''pom.xml'', 100), (''build.gradle'', 100),
     (''gemfile'', 95), (''composer.json'', 95),
     (''readme.md'', 95), (''readme'', 95), (''readme.txt'', 95),
     (''contributing.md'', 60), (''changelog.md'', 50),
     (''main.py'', 90), (''app.py'', 90), (''index.py'', 90), (''index.js'', 90),
     (''index.ts'', 90), (''index.tsx'', 90), (''main.js'', 90), (''main.ts'', 90),
     (''app.js'', 85), (''app.ts'', 85), (''app.tsx'', 85), (''main.go'', 90),
     (''main.rs'', 90),
     (''dockerfile'', 70), (''docker-compose.yml'', 70), (''docker-compose.yaml'', 70),
     (''.env.example'', 60), (''tsconfig.json'', 50), (''webpack.config.js'', 50),
     (''vite.config.js'', 50), (''next.config.js'', 50)]"

definition PATH_PATTERNS :: "(pattern \<times> int) list" where
  "PATH_PATTERNS =
    [(Contains ''/routes/'', 40), (Contains ''/api/'', 40), (Contains ''/controllers/'', 40),
     (Contains ''/handlers/'', 35), (Contains ''/pages/'', 35), (Contains ''/views/'', 35),
     (Contains ''/components/'', 30), (Contains ''/services/'', 30),
     (Contains ''/models/'', 25),
     (Contains ''/src/'', 10), (Contains ''/lib/'', 10), (Contains ''/app/'', 10)]"

definition SKIP_PATTERNS :: "pattern list" where
  "SKIP_PATTERNS =
    [Contains ''node_modules/'', Contains ''vendor/'', Contains ''.git/'', Contains ''dist/'',
     Contains ''build/'', EndsWith ''.min.js'', EndsWith ''.min.css'', EndsWith ''.map'',
     EndsWith ''.lock'', EndsWith ''package-lock.json'', EndsWith ''yarn.lock'',
     EndsWith ''.png'', EndsWith ''.jpg'', EndsWith ''.jpeg'', EndsWith ''.gif'',
     EndsWith ''.svg'', EndsWith ''.ico'', Contains ''.woff'', EndsWith ''.ttf'',
     EndsWith ''.eot'', EndsWith ''.mp4'', EndsWith ''.mp3'', EndsWith ''.pdf'',
     EndsWith ''.zip'', EndsWith ''.tar'', EndsWith ''.gz'', Contains ''__pycache__/'',
     EndsWith ''.pyc'', Contains ''.test.'', Contains ''.spec.'', EndsWith ''_test.go'']"

text \<open>The loop of \<open>should_skip\<close>: the first pattern found returns \<open>True\<close>.\<close>

fun skip_loop :: "pattern list \<Rightarrow> string \<Rightarrow> bool" where
  "skip_loop [] path_lower = False"
| "skip_loop (pat # rest) path_lower =
     (if re_search pat path_lower then True else skip_loop rest path_lower)"

definition should_skip :: "string \<Rightarrow> bool" where
  "should_skip path = (let path_lower = lower path in skip_loop SKIP_PATTERNS path_lower)"

text \<open>
  The loop over \<open>PATH_PATTERNS\<close> in \<open>score_file\<close>: the first pattern found adds its bonus
  and the \<open>break\<close> leaves the loop.
\<close>

fun path_bonus_loop :: "(pattern \<times> int) list \<Rightarrow> string \<Rightarrow> int \<Rightarrow> int" where
  "path_bonus_loop [] path_lower score = score"
| "path_bonus_loop ((pat, bonus) # rest) path_lower score =
     (if re_search pat path_lower then score + bonus
      else path_bonus_loop rest path_lower score)"

definition score_file :: "string \<Rightarrow> int \<Rightarrow> int" where
  "score_file path sz =
     (if should_skip path then - 1
      else if sz > 500000 then - 1
      else
        let score0 = 0;
            path_lower = lower path;
            filename = last (split_sep CHR ''/'' path_lower);
            score1 = (case map_of FILE_SCORES filename of
                        Some v \<Rightarrow> score0 + v
                      | None \<Rightarrow> score0);
            score2 = path_bonus_loop PATH_PATTERNS path_lower score1;
            depth = count_char CHR ''/'' path;
            score3 = (if depth \<le> 1 then score2 + 5 else score2)
        in score3)"

text \<open>
  One entry of the file tree, \<open>{"path": ..., "size": ...}\<close>, as \<open>get_file_tree\<close> builds it
  (both keys always present), and one entry of \<open>scored_files\<close>.
\<close>

record file_entry =
  path :: string
  size_f :: int

record scored_file =
  sf_path :: string
  sf_score :: int

text \<open>The scoring loop of \<open>get_high_value_files\<close>, appending to \<open>scored_files\<close>.\<close>

fun score_loop :: "file_entry list \<Rightarrow> scored_file list \<Rightarrow> scored_file list" where
  "score_loop [] scored_files = scored_files"
| "score_loop (f # fs) scored_files =
     (let score = score_file (path f) (size_f f)
      in if score \<ge> 0
         then score_loop fs (scored_files @ [\<lparr>sf_path = path f, sf_score = score\<rparr>])
         else score_loop fs scored_files)"

text \<open>
  \<open>list.sort(key=..., reverse=True)\<close>: Python's sort is stable, and with \<open>reverse=True\<close>
  elements with equal keys still keep their original order. That is the stable sort by the
  negated key.
\<close>

definition sort_reverse :: "('a \<Rightarrow> int) \<Rightarrow> 'a list \<Rightarrow> 'a list" where
  "sort_reverse key xs = sort_key (\<lambda>x. - key x) xs"

text \<open>The slice \<open>xs[:n]\<close>: a negative \<open>n\<close> counts from the end.\<close>

definition slice_to :: "'a list \<Rightarrow> int \<Rightarrow> 'a list" where
  "slice_to xs n = (if n \<ge> 0 then take (nat n) xs else take (length xs - nat (- n)) xs)"

definition get_high_value_files :: "file_entry list \<Rightarrow> int \<Rightarrow> string list" where
  "get_high_value_files files max_files =
     (let scored_files = score_loop files [];
          sorted_files = sort_reverse sf_score scored_files
      in map sf_path (slice_to sorted_files max_files))"

section \<open>Python failures and dictionaries\<close>

datatype exn = AttributeError | UnboundLocalError | IndexError | KeyError | TypeError

text \<open>\<open>d[key]\<close> on a dict written as a literal: \<open>KeyError\<close> when the key is absent.\<close>

definition getitem :: "(string \<times> 'v) list \<Rightarrow> string \<Rightarrow> exn + 'v" where
  "getitem d k = (case map_of d k of None \<Rightarrow> Inl KeyError | Some v \<Rightarrow> Inr v)"

text \<open>\<open>d[key] = v\<close> on an insertion-ordered dict: a key already there keeps its place.\<close>

fun dict_set :: "('k \<times> 'v) list \<Rightarrow> 'k \<Rightarrow> 'v \<Rightarrow> ('k \<times> 'v) list" where
  "dict_set [] k v = [(k, v)]"
| "dict_set ((k', v') # rest) k v =
     (if k' = k then (k, v) # rest else (k', v') # dict_set rest k v)"

text \<open>
  Reading a local variable of a function: a name the function assigns somewhere is local
  to it, and reading it before any assignment raises \<open>UnboundLocalError\<close>.
\<close>

definition read_local :: "(string \<rightharpoonup> 'v) \<Rightarrow> string \<Rightarrow> exn + 'v" where
  "read_local locals name =
     (case locals name of None \<Rightarrow> Inl UnboundLocalError | Some v \<Rightarrow> Inr v)"

text \<open>
  A call that passes every argument by keyword, against the callee's parameters (those
  without a default, those with one): an unknown keyword, or a parameter without default
  left out, raises \<open>TypeError\<close>.
\<close>

definition bind_keywords :: "string list \<times> string list \<Rightarrow> string list \<Rightarrow> exn option" where
  "bind_keywords params keywords =
     (if list_ex (\<lambda>k. k \<notin> set (fst params) \<and> k \<notin> set (snd params)) keywords
         \<or> list_ex (\<lambda>r. r \<notin> set keywords) (fst params)
      then Some TypeError else None)"

text \<open>Truthiness of a value that is \<open>None\<close> or a \<open>str\<close>.\<close>

fun truthy :: "string option \<Rightarrow> bool" where
  "truthy None = False"
| "truthy (Some s) = (s \<noteq> [])"

section \<open>The hosting-API client (github\_client.py)\<close>

datatype 'd body = ErrorBody string | DataBody "'d option"

record 'd response =
  statusCode :: int
  body :: "'d body"

definition ERROR_CODE :: "(int \<times> string) list" where
  "ERROR_CODE =
     [(404, ''REPO_NOT_FOUND''), (401, ''GITHUB_TOKEN_INVALID''), (403, ''RATE_LIMIT_EXCEEDED''),
      (409, ''EMPTY_GITHUB_REPO''), (503, ''SERVICE_UNAVAILABLE''),
      (500, ''INTERNAL_SERVER_ERROR'')]"

definition create_response :: "int \<Rightarrow> 'd option \<Rightarrow> string option \<Rightarrow> 'd response" where
  "create_response status_code data error_code =
     \<lparr>statusCode = status_code,
      body = (if status_code \<ge> 400
              then ErrorBody (case (if truthy error_code then error_code else None) of
                                Some c \<Rightarrow> c
                              | None \<Rightarrow> (case map_of ERROR_CODE status_code of
                                          Some c \<Rightarrow> c
                                        | None \<Rightarrow> ''UNKNOWN_ERROR''))
              else DataBody data)\<rparr>"

text \<open>
  What \<open>requests.get\<close> does: one of the three exceptions the client catches, or a reply
  with its status code and its decoded payload (read by the client only when the status
  is 200).
\<close>

datatype 'a http = Timeout | ConnectionError | RequestException | Reply int 'a

text \<open>
  The dict \<open>get_repo_metadata\<close> builds from the reply with \<open>response_data.get\<close>: every
  key is present, a value the reply lacks is \<open>None\<close>.
\<close>

record metadata =
  md_name :: "string option"
  md_description :: "string option"
  md_stars :: "int option"
  md_topics :: "string list option"
  md_default_branch :: "string option"
  md_language :: "string option"
  md_html_url :: "string option"

record tree_item =
  ti_path :: string
  ti_type :: string
  ti_size :: "int option"

record tree_reply =
  tr_tree :: "tree_item list"
  tr_truncated :: bool

record tree_data =
  td_files :: "file_entry list"
  td_truncated :: bool
  td_file_count :: int

record content_data =
  cd_path :: string
  cd_content :: "string option"
  cd_size :: int
  cd_skipped :: bool
  cd_reason :: "string option"

section \<open>The generative-text client (gemini\_client.py)\<close>

text \<open>
  One element of the JSON value the model's reply decodes to: a string, or anything else.
  \<open>AiRaises\<close> is any exception inside the \<open>try\<close> of \<open>select_important_files\<close> (the call,
  the decoding, iterating a value that is no sequence).
\<close>

datatype jitem = JStr string | JOther

datatype ai_reply = AiRaises | AiItems "jitem list"

type_synonym suggestion = string

datatype gen_reply = GenJSONDecodeError | GenException | GenSuggestions "suggestion list"

record suggest_data =
  sd_suggestions :: "suggestion list"
  sd_suggestion_count :: int

section \<open>The collaborators and the state of one invocation\<close>

record analysis =
  an_repo_name :: "string option"
  an_description :: "string option"
  an_language :: "string option"
  an_stars :: "int option"
  an_topics :: "string list option"
  an_html_url :: "string option"
  an_default_branch :: "string option"
  an_file_count :: int
  an_files_analyzed :: "string list"
  an_selection_method :: string

record cache_item =
  ci_analysis :: analysis
  ci_suggestions :: "suggestion list"
  ci_created_at :: int
  ci_ttl :: int

text \<open>
  Everything outside the process, as the functions of one invocation see it:
  the replies of the hosting API, the credential and the replies of the generative
  service (\<open>genai_setup\<close> is what \<open>genai.configure\<close> and \<open>genai.GenerativeModel\<close> do, outside
  every \<open>try\<close>), whether the cache store's calls fail, the clock (epoch seconds), and the
  order in which \<open>list(set(...))\<close> enumerates a set of strings.
\<close>

record env =
  http_repo :: "string \<Rightarrow> string \<Rightarrow> metadata http"
  http_commit :: "string \<Rightarrow> string \<Rightarrow> string option \<Rightarrow> string option http"
  http_tree :: "string \<Rightarrow> string \<Rightarrow> string option \<Rightarrow> tree_reply http"
  http_content :: "string \<Rightarrow> string \<Rightarrow> string \<Rightarrow> string http"
  gemini_api_key :: "string option"
  genai_setup :: "exn option"
  ai_select :: "string list \<Rightarrow> int \<Rightarrow> ai_reply"
  ai_suggest :: "metadata \<Rightarrow> string list \<Rightarrow> (string \<times> string option) list \<Rightarrow> gen_reply"
  cache_get_fails :: bool
  cache_put_fails :: bool
  clock :: int
  list_of_set :: "string list \<Rightarrow> string list"

text \<open>\<open>list(set(xs))\<close> holds every element of \<open>xs\<close> once, in some order.\<close>

definition set_order_ok :: "env \<Rightarrow> bool" where
  "set_order_ok e = (\<forall>xs. set (list_of_set e xs) = set xs \<and> distinct (list_of_set e xs))"

text \<open>
  The state an invocation changes: the cache table, keyed by \<open>(repo_url, commit_sha)\<close>,
  and the calls made to the collaborators, in order.
\<close>

datatype call =
  MetadataCall | CommitCall | CacheGet string string | CachePut string string | TreeCall
  | AiSelectCall | ContentCall string | SuggestCall

record world =
  cache_table :: "(string \<times> string) \<rightharpoonup> cache_item"
  calls :: "call list"

definition log_call :: "call \<Rightarrow> world \<Rightarrow> world" where
  "log_call c w = w\<lparr>calls := calls w @ [c]\<rparr>"

section \<open>The client functions\<close>

text \<open>
  Each function of \<open>github_client.py\<close> is one \<open>requests.get\<close> and the response built from
  its outcome. How the request's headers and the credentials are loaded is not modelled;
  the items of a tree reply are taken to carry their \<open>path\<close> and \<open>type\<close>.
\<close>

definition get_repo_metadata :: "env \<Rightarrow> string \<Rightarrow> string \<Rightarrow> metadata response" where
  "get_repo_metadata e owner repo =
     (case http_repo e owner repo of
        Timeout \<Rightarrow> create_response 503 None (Some ''REQUEST_TIMEOUT'')
      | ConnectionError \<Rightarrow> create_response 503 None (Some ''CONNECTION_ERROR'')
      | RequestException \<Rightarrow> create_response 500 None None
      | Reply status_code response_data \<Rightarrow>
          if status_code \<noteq> 200 then create_response status_code None None
          else create_response 200 (Some response_data) None)"

text \<open>
  \<open>get_latest_commit_sha\<close> returns the dict \<open>{"latest_commit_sha": response_data.get("sha")}\<close>
  as the data of its 200 response.
\<close>

definition get_latest_commit_sha ::
  "env \<Rightarrow> string \<Rightarrow> string \<Rightarrow> string option \<Rightarrow> (string \<times> string option) list response" where
  "get_latest_commit_sha e owner repo default_branch =
     (case http_commit e owner repo default_branch of
        Timeout \<Rightarrow> create_response 503 None (Some ''REQUEST_TIMEOUT'')
      | ConnectionError \<Rightarrow> create_response 503 None (Some ''CONNECTION_ERROR'')
      | RequestException \<Rightarrow> create_response 500 None None
      | Reply status_code sha \<Rightarrow>
          if status_code \<noteq> 200 then create_response status_code None None
          else create_response 200 (Some [(''latest_commit_sha'', sha)]) None)"

definition get_file_tree :: "env \<Rightarrow> string \<Rightarrow> string \<Rightarrow> string option \<Rightarrow> tree_data response" where
  "get_file_tree e owner repo branch =
     (case http_tree e owner repo branch of
        Timeout \<Rightarrow> create_response 503 None (Some ''REQUEST_TIMEOUT'')
      | ConnectionError \<Rightarrow> create_response 503 None (Some ''CONNECTION_ERROR'')
      | RequestException \<Rightarrow> create_response 500 None None
      | Reply status_code response_data \<Rightarrow>
          if status_code \<noteq> 200 then create_response status_code None None
          else
            let files = map (\<lambda>item. \<lparr>path = ti_path item,
                                      size_f = (case ti_size item of None \<Rightarrow> 0 | Some n \<Rightarrow> n)\<rparr>)
                            (filter (\<lambda>item. ti_type item = ''blob'') (tr_tree response_data))
            in create_response 200
                 (Some \<lparr>td_files = files, td_truncated = tr_truncated response_data,
                        td_file_count = int (length files)\<rparr>) None)"

definition get_file_content ::
  "env \<Rightarrow> string \<Rightarrow> string \<Rightarrow> string \<Rightarrow> int \<Rightarrow> content_data response" where
  "get_file_content e owner repo p max_size =
     (case http_content e owner repo p of
        Timeout \<Rightarrow> create_response 503 None (Some ''REQUEST_TIMEOUT'')
      | ConnectionError \<Rightarrow> create_response 503 None (Some ''CONNECTION_ERROR'')
      | RequestException \<Rightarrow> create_response 500 None None
      | Reply status_code content \<Rightarrow>
          if status_code \<noteq> 200 then create_response status_code None None
          else if int (length content) > max_size
          then create_response 200
                 (Some \<lparr>cd_path = p, cd_content = None, cd_size = int (length content),
                        cd_skipped = True, cd_reason = Some ''FILE_TOO_LARGE''\<rparr>) None
          else create_response 200
                 (Some \<lparr>cd_path = p, cd_content = Some content, cd_size = int (length content),
                        cd_skipped = False, cd_reason = None\<rparr>) None)"

text \<open>
  The parameters of \<open>get_file_content(owner, repo, path, max_size=100000)\<close>: those without
  a default and those with one.
\<close>

definition get_file_content_params :: "string list \<times> string list" where
  "get_file_content_params = ([''owner'', ''repo'', ''path''], [''max_size''])"

text \<open>The list comprehension \<open>[file for file in files if file in file_tree]\<close>.\<close>

fun valid_files :: "jitem list \<Rightarrow> string list \<Rightarrow> string list" where
  "valid_files [] file_tree = []"
| "valid_files (JStr p # rest) file_tree =
     (if p \<in> set file_tree then p # valid_files rest file_tree else valid_files rest file_tree)"
| "valid_files (JOther # rest) file_tree = valid_files rest file_tree"

definition select_important_files :: "env \<Rightarrow> file_entry list \<Rightarrow> int \<Rightarrow> exn + string list" where
  "select_important_files e files max_files =
     (if \<not> truthy (gemini_api_key e) then Inr []
      else
        let file_tree = map path (filter (\<lambda>f. path f \<noteq> []) files)
        in case genai_setup e of
             Some err \<Rightarrow> Inl err
           | None \<Rightarrow>
               (case ai_select e file_tree max_files of
                  AiRaises \<Rightarrow> Inr []
                | AiItems items \<Rightarrow> Inr (valid_files items file_tree)))"

text \<open>
  \<open>build_prompt\<close> runs outside the \<open>try\<close> of \<open>generate_suggestions\<close>: \<open>len(content)\<close> of a
  content that is \<open>None\<close> and \<open>', '.join\<close> of topics that are \<open>None\<close> raise \<open>TypeError\<close>.
  The prompt's text is not modelled.
\<close>

definition build_prompt :: "metadata \<Rightarrow> (string \<times> string option) list \<Rightarrow> exn option" where
  "build_prompt md file_contents =
     (if list_ex (\<lambda>kv. snd kv = None) file_contents then Some TypeError
      else if md_topics md = None then Some TypeError
      else None)"

definition generate_suggestions ::
  "env \<Rightarrow> metadata \<Rightarrow> string list \<Rightarrow> (string \<times> string option) list \<Rightarrow> exn + suggest_data response" where
  "generate_suggestions e md file_tree file_contents =
     (if \<not> truthy (gemini_api_key e)
      then Inr \<lparr>statusCode = 500, body = ErrorBody ''GEMINI_API_KEY_NOT_FOUND''\<rparr>
      else case genai_setup e of
             Some err \<Rightarrow> Inl err
           | None \<Rightarrow>
               (case build_prompt md file_contents of
                  Some err \<Rightarrow> Inl err
                | None \<Rightarrow>
                    (case ai_suggest e md file_tree file_contents of
                       GenJSONDecodeError \<Rightarrow>
                         Inr \<lparr>statusCode = 500, body = ErrorBody ''GEMINI_RESPONSE_PARSE_ERROR''\<rparr>
                     | GenException \<Rightarrow>
                         Inr \<lparr>statusCode = 500, body = ErrorBody ''GEMINI_API_ERROR''\<rparr>
                     | GenSuggestions suggestions \<Rightarrow>
                         Inr \<lparr>statusCode = 200,
                              body = DataBody (Some \<lparr>sd_suggestions = suggestions,
                                                      sd_suggestion_count = int (length suggestions)\<rparr>)\<rparr>)))"

section \<open>The orchestrator (handler.py)\<close>

definition CACHE_TTL_DAYS :: int where
  "CACHE_TTL_DAYS = 7"

definition MIN_FILES_THRESHOLD :: nat where
  "MIN_FILES_THRESHOLD = 5"

text \<open>
  \<open>parse_github_url(github_url)\<close>: its only local at entry is the parameter. The first
  statement, \<open>url = url.rstrip('/')\<close>, reads the local \<open>url\<close>.
\<close>

definition parse_github_url :: "string \<Rightarrow> exn + (string \<times> string)" where
  "parse_github_url github_url =
     (let locals = [''github_url'' \<mapsto> github_url]
      in case read_local locals ''url'' of
           Inl err \<Rightarrow> Inl err
         | Inr url0 \<Rightarrow>
             let url = rstrip CHR ''/'' url0;
                 parts = split_sep CHR ''/'' url
             in if length parts < 2 then Inl IndexError
                else
                  let owner = parts ! (length parts - 2);
                      repo = last parts;
                      repo = (if suffix ''.git'' repo then slice_to repo (- 4) else repo)
                  in Inr (owner, repo))"

definition get_from_cache :: "env \<Rightarrow> string \<Rightarrow> string \<Rightarrow> world \<Rightarrow> cache_item option" where
  "get_from_cache e cache_key commit_sha w =
     (if cache_get_fails e then None else cache_table w (cache_key, commit_sha))"

definition save_to_cache ::
  "env \<Rightarrow> string \<Rightarrow> string \<Rightarrow> analysis \<Rightarrow> suggestion list \<Rightarrow> world \<Rightarrow> bool \<times> world" where
  "save_to_cache e cache_key commit_sha an suggestions w =
     (if cache_put_fails e then (False, w)
      else
        let ttl = clock e + CACHE_TTL_DAYS * 86400;
            item = \<lparr>ci_analysis = an, ci_suggestions = suggestions,
                    ci_created_at = clock e, ci_ttl = ttl\<rparr>
        in (True, w\<lparr>cache_table := (cache_table w)((cache_key, commit_sha) \<mapsto> item)\<rparr>))"

text \<open>
  What the handler gives back: a response with a status code (its body an error code, or
  the \<open>{"data": None}\<close> of a collaborator's response passed on), or the payload
  \<open>{analysis, suggestions, from_cache}\<close>.
\<close>

datatype result_body = ErrorCode string | NoData

datatype handler_result =
  StatusResult int result_body
  | Payload analysis "suggestion list" bool

definition passthrough :: "'d response \<Rightarrow> handler_result" where
  "passthrough r =
     StatusResult (statusCode r)
       (case body r of ErrorBody c \<Rightarrow> ErrorCode c | DataBody d \<Rightarrow> NoData)"

text \<open>
  How a stage of the handler ends: an uncaught exception, a \<open>return\<close>, or the values the
  next stage reads.
\<close>

datatype 'a flow = Raise exn | Return handler_result | Next 'a

fun and_then :: "'a flow \<times> world \<Rightarrow> ('a \<Rightarrow> world \<Rightarrow> 'b flow \<times> world) \<Rightarrow> 'b flow \<times> world" where
  "and_then (Raise err, w) k = (Raise err, w)"
| "and_then (Return r, w) k = (Return r, w)"
| "and_then (Next x, w) k = k x w"

text \<open>
  The attributes of the root logger that \<open>logging.getLogger()\<close> returns (Python's standard
  library); \<open>logger.name(...)\<close> for any other name raises \<open>AttributeError\<close> before the
  argument is evaluated.
\<close>

definition LOGGER_ATTRIBUTES :: "string list" where
  "LOGGER_ATTRIBUTES =
     [''name'', ''level'', ''parent'', ''propagate'', ''handlers'', ''disabled'', ''filters'',
      ''manager'', ''root'', ''setLevel'', ''debug'', ''info'', ''warning'', ''warn'', ''error'',
      ''exception'', ''critical'', ''fatal'', ''log'', ''findCaller'', ''makeRecord'', ''handle'',
      ''addHandler'', ''removeHandler'', ''hasHandlers'', ''callHandlers'',
      ''getEffectiveLevel'', ''isEnabledFor'', ''getChild'', ''getChildren'', ''addFilter'',
      ''removeFilter'', ''filter'']"

definition logger_call :: "string \<Rightarrow> exn option" where
  "logger_call name = (if name \<in> set LOGGER_ATTRIBUTES then None else Some AttributeError)"

type_synonym event = "string \<rightharpoonup> string"

text \<open>Step 1 (lines 130 to 144): the URL, the owner and the repository, the cache key.\<close>

definition step1_parse_input :: "event \<Rightarrow> (string \<times> string \<times> string \<times> string) flow" where
  "step1_parse_input event =
     (let github_url = event ''github_url''
      in if \<not> truthy github_url
         then Return (StatusResult 400 (ErrorCode ''MISSING_GITHUB_URL''))
         else
           (case github_url of
              None \<Rightarrow> Return (StatusResult 400 (ErrorCode ''MISSING_GITHUB_URL''))
            | Some url \<Rightarrow>
                (case parse_github_url url of
                   Inl err \<Rightarrow> Raise err
                 | Inr (owner, repo) \<Rightarrow>
                     let cache_key = lower owner @ ''/'' @ lower repo
                     in if owner = [] \<or> repo = []
                        then Return (StatusResult 400 (ErrorCode ''INVALID_GITHUB_URL''))
                        else Next (url, owner, repo, cache_key))))"

text \<open>Step 2 (lines 151 to 159): the metadata and the default branch.\<close>

definition step2_metadata ::
  "env \<Rightarrow> string \<Rightarrow> string \<Rightarrow> world \<Rightarrow> (metadata \<times> string option) flow \<times> world" where
  "step2_metadata e owner repo w =
     (let metadata_response = get_repo_metadata e owner repo;
          w1 = log_call MetadataCall w
      in if statusCode metadata_response \<noteq> 200 then (Return (passthrough metadata_response), w1)
         else
           (case body metadata_response of
              ErrorBody c \<Rightarrow> (Raise KeyError, w1)
            | DataBody None \<Rightarrow> (Raise AttributeError, w1)
            | DataBody (Some md) \<Rightarrow> (Next (md, md_default_branch md), w1)))"

text \<open>
  Step 3 (lines 164 to 172): the commit identifier, read from the response's data with
  the key \<open>"sha"\<close>.
\<close>

definition step3_commit ::
  "env \<Rightarrow> string \<Rightarrow> string \<Rightarrow> string option \<Rightarrow> world \<Rightarrow> string option flow \<times> world" where
  "step3_commit e owner repo default_branch w =
     (let commit_response = get_latest_commit_sha e owner repo default_branch;
          w1 = log_call CommitCall w
      in if statusCode commit_response \<noteq> 200 then (Next None, w1)
         else
           (case body commit_response of
              ErrorBody c \<Rightarrow> (Raise KeyError, w1)
            | DataBody None \<Rightarrow> (Raise TypeError, w1)
            | DataBody (Some data) \<Rightarrow>
                (case getitem data ''sha'' of
                   Inl err \<Rightarrow> (Raise err, w1)
                 | Inr commit_sha \<Rightarrow> (Next commit_sha, w1))))"

text \<open>Step 4 (lines 178 to 187): the cache lookup, under \<open>cache_key\<close>.\<close>

definition step4_cache ::
  "env \<Rightarrow> string \<Rightarrow> string option \<Rightarrow> world \<Rightarrow> unit flow \<times> world" where
  "step4_cache e cache_key commit_sha w =
     (if truthy commit_sha
      then
        (case commit_sha of
           None \<Rightarrow> (Next (), w)
         | Some sha \<Rightarrow>
             let cached = get_from_cache e cache_key sha w;
                 w1 = log_call (CacheGet cache_key sha) w
             in (case cached of
                   Some item \<Rightarrow>
                     (Return (Payload (ci_analysis item) (ci_suggestions item) True), w1)
                 | None \<Rightarrow> (Next (), w1)))
      else (Next (), w))"

text \<open>Step 5 (lines 192 to 206): the file tree.\<close>

definition step5_tree ::
  "env \<Rightarrow> string \<Rightarrow> string \<Rightarrow> string option \<Rightarrow> world \<Rightarrow> (file_entry list \<times> int) flow \<times> world" where
  "step5_tree e owner repo default_branch w =
     (let tree_response = get_file_tree e owner repo default_branch;
          w1 = log_call TreeCall w
      in if statusCode tree_response \<noteq> 200 then (Return (passthrough tree_response), w1)
         else
           (case body tree_response of
              ErrorBody c \<Rightarrow> (Raise KeyError, w1)
            | DataBody None \<Rightarrow> (Raise TypeError, w1)
            | DataBody (Some data) \<Rightarrow>
                let all_files = td_files data;
                    file_count = td_file_count data
                in if file_count = 0
                   then (Return (StatusResult 400 (ErrorCode ''EMPTY_REPOSITORY'')), w1)
                   else (Next (all_files, file_count), w1)))"

text \<open>
  Step 6, first part (lines 211 to 229): the rule-based selection, and the AI-assisted
  selector when it found fewer than \<open>MIN_FILES_THRESHOLD\<close> paths.
\<close>

definition step6_hybrid ::
  "env \<Rightarrow> file_entry list \<Rightarrow> world \<Rightarrow> (string list \<times> string) flow \<times> world" where
  "step6_hybrid e all_files w =
     (let high_value_files = get_high_value_files all_files 10;
          selection_method = ''rule-based''
      in if length high_value_files < MIN_FILES_THRESHOLD
         then
           (let w1 = log_call AiSelectCall w
            in case select_important_files e all_files 10 of
                 Inl err \<Rightarrow> (Raise err, w1)
               | Inr ai_selected \<Rightarrow>
                   if ai_selected \<noteq> []
                   then
                     (let combined = slice_to (list_of_set e (high_value_files @ ai_selected)) 10
                      in if length combined > length high_value_files
                         then (Next (combined, ''hybrid''), w1)
                         else (Next (high_value_files, selection_method), w1))
                   else (Next (high_value_files, selection_method), w1))
         else (Next (high_value_files, selection_method), w))"

text \<open>
  Step 6, second part (lines 231 to 248). The local \<open>fallback_files\<close> is assigned only
  inside the first \<open>if\<close>; the second \<open>if\<close> reads it in every run.
\<close>

definition fallback_extensions :: "string list" where
  "fallback_extensions = [''.py'', ''.js'', ''.ts'', ''.java'', ''.go'', ''.rs'', ''.cpp'', ''.c'']"

definition step6_fallback ::
  "file_entry list \<Rightarrow> int \<Rightarrow> string list \<times> string \<Rightarrow> (string list \<times> string) flow" where
  "step6_fallback all_files file_count selection =
     (let high_value_files = fst selection;
          selection_method = snd selection;
          fallback_files =
            (if length high_value_files = 0 \<and> file_count > 0
             then Some (slice_to
                    (map path (filter (\<lambda>f. list_ex (\<lambda>ext. suffix ext (path f)) fallback_extensions)
                                      all_files)) 5)
             else None)
      in case fallback_files of
           None \<Rightarrow> Raise UnboundLocalError
         | Some fb \<Rightarrow>
             let high_value_files = (if fb \<noteq> [] then fb else high_value_files);
                 selection_method = (if fb \<noteq> [] then ''fallback'' else selection_method)
             in if length high_value_files = 0
                then Return (StatusResult 400 (ErrorCode ''NO_ANALYZABLE_FILES''))
                else Next (high_value_files, selection_method))"

text \<open>
  Step 7 (lines 253 to 274). The call of line 256 passes the keywords \<open>owner\<close>, \<open>repo\<close> and
  \<open>file_path\<close>.
\<close>

definition call_get_file_content ::
  "env \<Rightarrow> string \<Rightarrow> string \<Rightarrow> string \<Rightarrow> exn + content_data response" where
  "call_get_file_content e owner repo file_path =
     (case bind_keywords get_file_content_params [''owner'', ''repo'', ''file_path''] of
        Some err \<Rightarrow> Inl err
      | None \<Rightarrow> Inr (get_file_content e owner repo file_path 100000))"

fun fetch_loop ::
  "env \<Rightarrow> string \<Rightarrow> string \<Rightarrow> string list \<Rightarrow> (string \<times> string option) list \<Rightarrow> world
     \<Rightarrow> (string \<times> string option) list flow \<times> world" where
  "fetch_loop e owner repo [] file_contents w = (Next file_contents, w)"
| "fetch_loop e owner repo (file_path # rest) file_contents w =
     (case call_get_file_content e owner repo file_path of
        Inl err \<Rightarrow> (Raise err, w)
      | Inr content_response \<Rightarrow>
          let w1 = log_call (ContentCall file_path) w
          in if statusCode content_response = 200
             then
               (case body content_response of
                  ErrorBody c \<Rightarrow> (Raise KeyError, w1)
                | DataBody None \<Rightarrow> (Raise AttributeError, w1)
                | DataBody (Some data) \<Rightarrow>
                    if \<not> cd_skipped data
                    then fetch_loop e owner repo rest
                           (dict_set file_contents file_path (cd_content data)) w1
                    else fetch_loop e owner repo rest file_contents w1)
             else fetch_loop e owner repo rest file_contents w1)"

definition step7_fetch ::
  "env \<Rightarrow> string \<Rightarrow> string \<Rightarrow> string list \<Rightarrow> world \<Rightarrow> (string \<times> string option) list flow \<times> world" where
  "step7_fetch e owner repo high_value_files w =
     and_then (fetch_loop e owner repo high_value_files [] w)
       (\<lambda>file_contents w1.
          if length file_contents = 0
          then (Return (StatusResult 400 (ErrorCode ''NO_FILE_CONTENT_FETCHED'')), w1)
          else (Next file_contents, w1))"

text \<open>Step 8 (lines 279 to 292): the suggestions.\<close>

definition step8_suggest ::
  "env \<Rightarrow> metadata \<Rightarrow> file_entry list \<Rightarrow> (string \<times> string option) list \<Rightarrow> world
     \<Rightarrow> suggestion list flow \<times> world" where
  "step8_suggest e md all_files file_contents w =
     (let file_tree_paths = map path all_files;
          w1 = log_call SuggestCall w
      in case generate_suggestions e md file_tree_paths file_contents of
           Inl err \<Rightarrow> (Raise err, w1)
         | Inr gemini_response \<Rightarrow>
             if statusCode gemini_response \<noteq> 200 then (Return (passthrough gemini_response), w1)
             else
               (case body gemini_response of
                  ErrorBody c \<Rightarrow> (Raise KeyError, w1)
                | DataBody None \<Rightarrow> (Raise TypeError, w1)
                | DataBody (Some data) \<Rightarrow> (Next (sd_suggestions data), w1)))"

text \<open>Step 9 (lines 297 to 308): the analysis object.\<close>

definition step9_analysis ::
  "metadata \<Rightarrow> string option \<Rightarrow> int \<Rightarrow> (string \<times> string option) list \<Rightarrow> string \<Rightarrow> analysis" where
  "step9_analysis md default_branch file_count file_contents selection_method =
     \<lparr>an_repo_name = md_name md, an_description = md_description md,
      an_language = md_language md, an_stars = md_stars md, an_topics = md_topics md,
      an_html_url = md_html_url md, an_default_branch = default_branch,
      an_file_count = file_count, an_files_analyzed = map fst file_contents,
      an_selection_method = selection_method\<rparr>"

text \<open>
  Step 10 (lines 313 and 314): the cache write. Its first argument is \<open>github_url\<close>.
\<close>

definition step10_save ::
  "env \<Rightarrow> string \<Rightarrow> string option \<Rightarrow> analysis \<Rightarrow> suggestion list \<Rightarrow> world \<Rightarrow> world" where
  "step10_save e github_url commit_sha an suggestions w =
     (if truthy commit_sha
      then
        (case commit_sha of
           None \<Rightarrow> w
         | Some sha \<Rightarrow>
             snd (save_to_cache e github_url sha an suggestions
                    (log_call (CachePut github_url sha) w)))
      else w)"

text \<open>The handler from step 1 on, and the handler: line 124, then the steps.\<close>

definition handler_steps :: "env \<Rightarrow> event \<Rightarrow> world \<Rightarrow> handler_result flow \<times> world" where
  "handler_steps e event w0 =
     and_then (step1_parse_input event, w0) (\<lambda>(github_url, owner, repo, cache_key) w.
     and_then (step2_metadata e owner repo w) (\<lambda>(md, default_branch) w.
     and_then (step3_commit e owner repo default_branch w) (\<lambda>commit_sha w.
     and_then (step4_cache e cache_key commit_sha w) (\<lambda>u w.
     and_then (step5_tree e owner repo default_branch w) (\<lambda>(all_files, file_count) w.
     and_then (step6_hybrid e all_files w) (\<lambda>selection w.
     and_then (step6_fallback all_files file_count selection, w)
       (\<lambda>(high_value_files, selection_method) w.
     and_then (step7_fetch e owner repo high_value_files w) (\<lambda>file_contents w.
     and_then (step8_suggest e md all_files file_contents w) (\<lambda>suggestions w.
       let an = step9_analysis md default_branch file_count file_contents selection_method;
           w' = step10_save e github_url commit_sha an suggestions w
       in (Next (Payload an suggestions False), w'))))))))))"

datatype outcome = Raised exn | Returned handler_result

fun finish :: "handler_result flow \<times> world \<Rightarrow> outcome \<times> world" where
  "finish (Raise err, w) = (Raised err, w)"
| "finish (Return r, w) = (Returned r, w)"
| "finish (Next r, w) = (Returned r, w)"

definition handler :: "env \<Rightarrow> event \<Rightarrow> world \<Rightarrow> outcome \<times> world" where
  "handler e event w =
     (case logger_call ''loggin'' of
        Some err \<Rightarrow> (Raised err, w)
      | None \<Rightarrow> finish (handler_steps e event w))"

section \<open>Scenarios\<close>

text \<open>
  The tree of the specification's scenario A, a tree with five files the scorer keeps,
  and collaborators that answer every call: the commit lookup with a 200 reply, the
  AI-assisted selector with one path of the tree, one path outside it and one value that
  is no string.
\<close>

definition scenario_a_tree :: "file_entry list" where
  "scenario_a_tree =
     [\<lparr>path = ''package.json'', size_f = 500\<rparr>,
      \<lparr>path = ''src/index.js'', size_f = 1200\<rparr>,
      \<lparr>path = ''node_modules/x.js'', size_f = 900\<rparr>]"

definition five_file_tree :: "file_entry list" where
  "five_file_tree =
     [\<lparr>path = ''README.md'', size_f = 300\<rparr>,
      \<lparr>path = ''package.json'', size_f = 500\<rparr>,
      \<lparr>path = ''src/index.js'', size_f = 1200\<rparr>,
      \<lparr>path = ''src/app.js'', size_f = 800\<rparr>,
      \<lparr>path = ''Dockerfile'', size_f = 200\<rparr>]"

definition scenario_metadata :: metadata where
  "scenario_metadata =
     \<lparr>md_name = Some ''widgets'', md_description = None, md_stars = Some 3,
      md_topics = Some [], md_default_branch = Some ''main'', md_language = Some ''JavaScript'',
      md_html_url = Some ''https://github.com/acme/widgets''\<rparr>"

definition scenario_env :: env where
  "scenario_env =
     \<lparr>http_repo = (\<lambda>owner repo. Reply 200 scenario_metadata),
      http_commit = (\<lambda>owner repo branch. Reply 200 (Some ''abc123'')),
      http_tree = (\<lambda>owner repo branch.
         Reply 200 \<lparr>tr_tree = map (\<lambda>f. \<lparr>ti_path = path f, ti_type = ''blob'',
                                             ti_size = Some (size_f f)\<rparr>) scenario_a_tree,
                    tr_truncated = False\<rparr>),
      http_content = (\<lambda>owner repo p. Reply 200 (replicate 100001 CHR ''x'')),
      gemini_api_key = Some ''key'',
      genai_setup = None,
      ai_select = (\<lambda>file_tree max_files.
         AiItems [JStr ''node_modules/x.js'', JStr ''ghost.py'', JOther]),
      ai_suggest = (\<lambda>md file_tree file_contents. GenSuggestions [''Project Introduction'']),
      cache_get_fails = False,
      cache_put_fails = False,
      clock = 0,
      list_of_set = remdups\<rparr>"

definition scenario_event :: event where
  "scenario_event = [''github_url'' \<mapsto> ''https://github.com/acme/widgets'']"

definition scenario_world :: world where
  "scenario_world = \<lparr>cache_table = Map.empty, calls = []\<rparr>"

definition scenario_analysis :: analysis where
  "scenario_analysis =
     step9_analysis scenario_metadata (Some ''main'') 3 [(''package.json'', Some ''{}'')]
       ''rule-based''"

section \<open>The file scorer: skip rules, bonuses, selection\<close>

lemma skip_loop_iff: "skip_loop ps s \<longleftrightarrow> (\<exists>pat \<in> set ps. re_search pat s)"
  by (induction ps) auto

lemma path_bonus_loop_find:
  "path_bonus_loop ps s score =
     score + (case find (\<lambda>(pat, bonus). re_search pat s) ps of
                Some (pat, bonus) \<Rightarrow> bonus
              | None \<Rightarrow> 0)"
  by (induction ps s score rule: path_bonus_loop.induct) auto

lemma FILE_SCORES_nonneg: "map_of FILE_SCORES name = Some v \<Longrightarrow> 0 \<le> v"
proof -
  assume "map_of FILE_SCORES name = Some v"
  then have "(name, v) \<in> set FILE_SCORES" by (rule map_of_SomeD)
  moreover have "\<forall>e \<in> set FILE_SCORES. 0 \<le> snd e"
    unfolding FILE_SCORES_def by simp
  ultimately show ?thesis by fastforce
qed

lemma PATH_PATTERNS_nonneg:
  "find P PATH_PATTERNS = Some (pat, bonus) \<Longrightarrow> 0 \<le> bonus"
proof -
  assume "find P PATH_PATTERNS = Some (pat, bonus)"
  then have "(pat, bonus) \<in> set PATH_PATTERNS"
    by (auto simp: find_Some_iff in_set_conv_nth)
  moreover have "\<forall>e \<in> set PATH_PATTERNS. 0 \<le> snd e"
    unfolding PATH_PATTERNS_def by simp
  ultimately show ?thesis by fastforce
qed

text \<open>
  Claim C5. For every path and every size, \<open>score_file\<close> returns \<open>-1\<close> if the lower-cased
  path matches any skip pattern or the size exceeds 500,000; the skip rules come before
  every bonus. Otherwise the score is the sum of the filename's entry in the priority
  table (if it has one), the bonus of the first path pattern that matches (if one does),
  and 5 when the path holds at most one \<open>/\<close>; that sum is never negative.
\<close>

theorem score_file_contract:
  "(if (\<exists>pat \<in> set SKIP_PATTERNS. re_search pat (lower p)) \<or> sz > 500000
    then score_file p sz = - 1
    else score_file p sz =
           (case map_of FILE_SCORES (last (split_sep CHR ''/'' (lower p))) of
              Some v \<Rightarrow> v | None \<Rightarrow> 0)
         + (case find (\<lambda>(pat, bonus). re_search pat (lower p)) PATH_PATTERNS of
              Some (pat, bonus) \<Rightarrow> bonus | None \<Rightarrow> 0)
         + (if count_char CHR ''/'' p \<le> 1 then 5 else 0)
       \<and> 0 \<le> score_file p sz)"
proof (cases "(\<exists>pat \<in> set SKIP_PATTERNS. re_search pat (lower p)) \<or> sz > 500000")
  case True
  then show ?thesis
    by (auto simp: score_file_def should_skip_def skip_loop_iff)
next
  case False
  let ?a = "case map_of FILE_SCORES (last (split_sep CHR ''/'' (lower p))) of
              Some v \<Rightarrow> v | None \<Rightarrow> 0"
  let ?b = "case find (\<lambda>(pat, bonus). re_search pat (lower p)) PATH_PATTERNS of
              Some (pat, bonus) \<Rightarrow> bonus | None \<Rightarrow> 0"
  let ?c = "if count_char CHR ''/'' p \<le> 1 then 5 else (0::int)"
  have eq: "score_file p sz = ?a + ?b + ?c"
    using False
    by (simp add: score_file_def should_skip_def skip_loop_iff path_bonus_loop_find Let_def
        split: option.splits)
  have a: "0 \<le> ?a" by (auto split: option.splits dest: FILE_SCORES_nonneg)
  have b: "0 \<le> ?b" by (auto split: option.splits dest: PATH_PATTERNS_nonneg)
  have c: "0 \<le> ?c" by simp
  from a b c eq have "0 \<le> score_file p sz" by linarith
  with eq False show ?thesis by simp
qed

theorem score_file_contract_witness:
  "score_file ''node_modules/x.js'' 900 = - 1 \<and> score_file ''src/routes/index.js'' 1200 = 130"
proof -
  have s: "(\<exists>pat \<in> set SKIP_PATTERNS. re_search pat (lower ''node_modules/x.js'')) \<or> (900::int) > 500000"
    by code_simp
  have n: "\<not> ((\<exists>pat \<in> set SKIP_PATTERNS. re_search pat (lower ''src/routes/index.js'')) \<or> (1200::int) > 500000)"
    by code_simp
  have v: "(case map_of FILE_SCORES (last (split_sep CHR ''/'' (lower ''src/routes/index.js''))) of
              Some v \<Rightarrow> v | None \<Rightarrow> 0)
         + (case find (\<lambda>(pat, bonus). re_search pat (lower ''src/routes/index.js'')) PATH_PATTERNS of
              Some (pat, bonus) \<Rightarrow> bonus | None \<Rightarrow> 0)
         + (if count_char CHR ''/'' ''src/routes/index.js'' \<le> 1 then 5 else 0) = (130::int)"
    by code_simp
  have "score_file ''node_modules/x.js'' 900 = - 1"
    using score_file_contract [of "''node_modules/x.js''" 900] s by (simp only: if_True)
  moreover have "score_file ''src/routes/index.js'' 1200 = 130"
    using score_file_contract [of "''src/routes/index.js''" 1200] n v by (simp only: if_False)
  ultimately show ?thesis by simp
qed

lemma score_loop_filter:
  "score_loop fs acc =
     acc @ map (\<lambda>f. \<lparr>sf_path = path f, sf_score = score_file (path f) (size_f f)\<rparr>)
               (filter (\<lambda>f. 0 \<le> score_file (path f) (size_f f)) fs)"
  by (induction fs arbitrary: acc) (simp_all add: Let_def)

lemma insort_key_map:
  "insort_key f (g x) (map g xs) = map g (insort_key (\<lambda>y. f (g y)) x xs)"
  by (induction xs) simp_all

lemma sort_key_map: "sort_key f (map g xs) = map g (sort_key (\<lambda>y. f (g y)) xs)"
  by (induction xs) (simp_all add: insort_key_map)

lemma slice_to_map: "slice_to (map g xs) n = map g (slice_to xs n)"
  by (simp add: slice_to_def take_map)

lemma get_high_value_files_eq:
  "get_high_value_files files max_files =
     map path (slice_to (sort_key (\<lambda>f. - score_file (path f) (size_f f))
                          (filter (\<lambda>f. 0 \<le> score_file (path f) (size_f f)) files)) max_files)"
  by (simp add: get_high_value_files_def score_loop_filter sort_reverse_def sort_key_map
      slice_to_map o_def)

lemma slice_to_prefix: "prefix (slice_to xs n) xs"
  by (simp add: slice_to_def take_is_prefix)

lemma slice_to_length: "0 \<le> n \<Longrightarrow> int (length (slice_to xs n)) \<le> n"
  by (simp add: slice_to_def)

lemma sorted_wrt_prefix: "prefix ys xs \<Longrightarrow> sorted_wrt R xs \<Longrightarrow> sorted_wrt R ys"
  by (auto simp: prefix_def sorted_wrt_append)

lemma sorted_desc_sort_key:
  "sorted_wrt (\<lambda>a b. key b \<le> key a) (sort_key (\<lambda>x. - key x) xs)" for key :: "'a \<Rightarrow> int"
proof -
  have "sorted (map (\<lambda>x. - key x) (sort_key (\<lambda>x. - key x) xs))"
    by (rule sorted_sort_key)
  then show ?thesis by (simp add: sorted_map)
qed

text \<open>
  Claim C6. \<open>get_high_value_files\<close> is a function of the file list and \<open>max_files\<close> alone
  (no collaborator, no state), so it is deterministic and performs no I/O. \<open>max_files\<close> is
  the maximum number of files to return, a count: for every file list and every such
  \<open>max_files\<close> it returns at most \<open>max_files\<close> paths. The paths returned are those of a
  list of input entries, each with a score that is not negative, sorted by descending
  score, in which the entries of any one score are an initial segment of the input's
  entries of that score, in the input's order.
\<close>

theorem get_high_value_files_contract:
  "(0 \<le> max_files \<longrightarrow> int (length (get_high_value_files files max_files)) \<le> max_files) \<and>
   (\<exists>sel. get_high_value_files files max_files = map path sel \<and>
      set sel \<subseteq> set files \<and>
      (\<forall>f \<in> set sel. 0 \<le> score_file (path f) (size_f f)) \<and>
      sorted_wrt (\<lambda>a b. score_file (path b) (size_f b) \<le> score_file (path a) (size_f a)) sel \<and>
      (\<forall>k. prefix (filter (\<lambda>f. score_file (path f) (size_f f) = k) sel)
                  (filter (\<lambda>f. score_file (path f) (size_f f) = k) files)))"
proof -
  let ?sc = "\<lambda>f. score_file (path f) (size_f f)"
  let ?kept = "filter (\<lambda>f. 0 \<le> ?sc f) files"
  let ?sorted = "sort_key (\<lambda>f. - ?sc f) ?kept"
  let ?sel = "slice_to ?sorted max_files"
  have eq: "get_high_value_files files max_files = map path ?sel"
    by (rule get_high_value_files_eq)
  have pre: "prefix ?sel ?sorted" by (rule slice_to_prefix)
  then have sub: "set ?sel \<subseteq> set ?sorted" by (rule set_mono_prefix)
  have len: "0 \<le> max_files \<longrightarrow> int (length (get_high_value_files files max_files)) \<le> max_files"
    using slice_to_length [of max_files ?sorted] by (simp add: eq)
  have in_files: "set ?sel \<subseteq> set files" using sub by auto
  have nonneg: "\<forall>f \<in> set ?sel. 0 \<le> ?sc f" using sub by auto
  have desc: "sorted_wrt (\<lambda>a b. ?sc b \<le> ?sc a) ?sel"
    using pre sorted_desc_sort_key [of ?sc ?kept] by (rule sorted_wrt_prefix)
  have stable: "prefix (filter (\<lambda>f. ?sc f = k) ?sel) (filter (\<lambda>f. ?sc f = k) files)" for k
  proof -
    have step1: "prefix (filter (\<lambda>f. ?sc f = k) ?sel) (filter (\<lambda>f. ?sc f = k) ?sorted)"
      using pre by (rule filter_mono_prefix)
    have step2: "filter (\<lambda>f. ?sc f = k) ?sorted = filter (\<lambda>f. ?sc f = k) ?kept"
      using sort_key_stable [of "\<lambda>f. - ?sc f" "- k" ?kept] by simp
    have step3: "prefix (filter (\<lambda>f. ?sc f = k) ?kept) (filter (\<lambda>f. ?sc f = k) files)"
    proof (cases "0 \<le> k")
      case True
      then have "filter (\<lambda>f. ?sc f = k) ?kept = filter (\<lambda>f. ?sc f = k) files"
        by (simp add: conj_commute cong: conj_cong)
      then show ?thesis by (simp only: prefix_order.order_refl)
    next
      case False
      then have "filter (\<lambda>f. ?sc f = k) ?kept = []"
        by (simp add: filter_empty_conv)
      then show ?thesis by (simp only: Nil_prefix)
    qed
    from step1 step3 show ?thesis by (simp only: step2)
  qed
  show ?thesis
  proof (intro conjI exI [of _ ?sel] allI)
    show "0 \<le> max_files \<longrightarrow> int (length (get_high_value_files files max_files)) \<le> max_files"
      by (rule len)
    show "get_high_value_files files max_files = map path ?sel" by (rule eq)
    show "set ?sel \<subseteq> set files" by (rule in_files)
    show "\<forall>f \<in> set ?sel. 0 \<le> ?sc f" by (rule nonneg)
    show "sorted_wrt (\<lambda>a b. ?sc b \<le> ?sc a) ?sel" by (rule desc)
    show "prefix (filter (\<lambda>f. ?sc f = k) ?sel) (filter (\<lambda>f. ?sc f = k) files)" for k
      by (rule stable)
  qed
qed

theorem get_high_value_files_contract_witness:
  "get_high_value_files scenario_a_tree 1 = [''package.json''] \<and>
   int (length (get_high_value_files scenario_a_tree 1)) \<le> 1 \<and>
   (\<exists>sel. get_high_value_files scenario_a_tree 1 = map path sel \<and> set sel \<subseteq> set scenario_a_tree)"
proof -
  have v: "get_high_value_files scenario_a_tree 1 = [''package.json'']" by code_simp
  have "(0::int) \<le> 1" by simp
  with get_high_value_files_contract [of 1 scenario_a_tree]
  have "int (length (get_high_value_files scenario_a_tree 1)) \<le> 1"
    and "\<exists>sel. get_high_value_files scenario_a_tree 1 = map path sel \<and> set sel \<subseteq> set scenario_a_tree"
    by blast+
  with v show ?thesis by blast
qed

section \<open>The orchestrator, stage by stage\<close>

lemma set_slice_to: "set (slice_to xs n) \<subseteq> set xs"
  using slice_to_prefix [of xs n] by (rule set_mono_prefix)

lemma get_high_value_files_in_tree:
  "set (get_high_value_files files max_files) \<subseteq> set (map path files)"
proof -
  have "set (slice_to (sort_key (\<lambda>f. - score_file (path f) (size_f f))
                          (filter (\<lambda>f. 0 \<le> score_file (path f) (size_f f)) files)) max_files)
        \<subseteq> set files"
    using set_slice_to [of "sort_key (\<lambda>f. - score_file (path f) (size_f f))
                          (filter (\<lambda>f. 0 \<le> score_file (path f) (size_f f)) files)" max_files]
    by auto
  then show ?thesis unfolding get_high_value_files_eq by auto
qed

lemma valid_files_subset: "set (valid_files items file_tree) \<subseteq> set file_tree"
  by (induction items file_tree rule: valid_files.induct) auto

lemma select_important_files_in_tree:
  "select_important_files e files n = Inr ai \<Longrightarrow> set ai \<subseteq> set (map path files)"
  using valid_files_subset [of _ "map path (filter (\<lambda>f. path f \<noteq> []) files)"]
  by (auto simp: select_important_files_def Let_def split: if_splits option.splits ai_reply.splits)

lemma step6_fallback_in_tree:
  assumes "step6_fallback all_files file_count (sel, m) = Next (sel', m')"
  shows "set sel' \<subseteq> set (map path all_files)"
proof -
  let ?fb = "slice_to (map path (filter (\<lambda>f. list_ex (\<lambda>ext. suffix ext (path f))
                                              fallback_extensions) all_files)) 5"
  from assms have "sel' = ?fb"
    by (auto simp: step6_fallback_def Let_def split: if_splits)
  moreover have "set ?fb \<subseteq> set (map path all_files)"
    using set_slice_to [of "map path (filter (\<lambda>f. list_ex (\<lambda>ext. suffix ext (path f))
                                              fallback_extensions) all_files)" 5]
    by auto
  ultimately show ?thesis by simp
qed

lemma call_get_file_content_raises:
  "call_get_file_content e owner repo file_path = Inl TypeError"
  by (simp add: call_get_file_content_def bind_keywords_def get_file_content_params_def)

lemma logger_loggin: "logger_call ''loggin'' = Some AttributeError"
  by (simp add: logger_call_def LOGGER_ATTRIBUTES_def)

lemma parse_github_url_raises: "parse_github_url github_url = Inl UnboundLocalError"
  by (simp add: parse_github_url_def read_local_def)

text \<open>
  Claim C1. For every invocation event, the handler returns a structured result (a status
  with an error code, or the payload) and never ends with an uncaught exception. The code
  does the opposite: line 124 calls \<open>logger.loggin\<close>, which the logger does not have, so
  every invocation ends with \<open>AttributeError\<close> and the state untouched; \<open>parse_github_url\<close>
  reads its local \<open>url\<close> before assigning it, so it raises \<open>UnboundLocalError\<close> for every
  URL, and with it the steps after line 124 for every event that carries a URL.
\<close>

theorem handler_always_raises:
  "handler e event w = (Raised AttributeError, w) \<and>
   parse_github_url github_url = Inl UnboundLocalError \<and>
   (truthy (event ''github_url'') \<longrightarrow> handler_steps e event w = (Raise UnboundLocalError, w))"
proof (intro conjI impI)
  show "handler e event w = (Raised AttributeError, w)"
    by (simp add: handler_def logger_loggin)
  show "parse_github_url github_url = Inl UnboundLocalError"
    by (rule parse_github_url_raises)
  assume "truthy (event ''github_url'')"
  then show "handler_steps e event w = (Raise UnboundLocalError, w)"
    by (cases "event ''github_url''")
       (simp_all add: handler_steps_def step1_parse_input_def parse_github_url_raises)
qed

theorem handler_always_raises_witness:
  "handler scenario_env scenario_event scenario_world = (Raised AttributeError, scenario_world) \<and>
   handler_steps scenario_env scenario_event scenario_world = (Raise UnboundLocalError, scenario_world)"
proof -
  have t: "truthy (scenario_event ''github_url'')" by (simp add: scenario_event_def)
  from handler_always_raises [of scenario_env scenario_event scenario_world] t
  show ?thesis by simp
qed

text \<open>
  Claim C2. The cache write and the cache lookup use the same key, the lower-cased
  \<open>owner/name\<close> with the commit identifier, so that a lookup after a write returns what was
  written. The code writes under \<open>github_url\<close> (line 314) and looks up under \<open>cache_key\<close>
  (line 179): whenever the two differ, the lookup stage after the write of a run ends as
  it would have ended without that write.
\<close>

theorem cache_write_misses_lookup_key:
  "github_url \<noteq> lower owner @ ''/'' @ lower repo \<Longrightarrow>
   fst (step4_cache e (lower owner @ ''/'' @ lower repo) commit_sha
          (step10_save e github_url commit_sha an suggestions w))
     = fst (step4_cache e (lower owner @ ''/'' @ lower repo) commit_sha w)"
  by (cases commit_sha)
     (auto simp: step4_cache_def step10_save_def get_from_cache_def save_to_cache_def
        log_call_def Let_def split: option.splits)

theorem cache_write_misses_lookup_key_witness:
  "cache_table (step10_save scenario_env ''https://github.com/acme/widgets'' (Some ''abc123'')
       scenario_analysis [''Project Introduction''] scenario_world)
     (''https://github.com/acme/widgets'', ''abc123'')
     = Some \<lparr>ci_analysis = scenario_analysis, ci_suggestions = [''Project Introduction''],
             ci_created_at = 0, ci_ttl = 604800\<rparr> \<and>
   fst (step4_cache scenario_env ''acme/widgets'' (Some ''abc123'')
          (step10_save scenario_env ''https://github.com/acme/widgets'' (Some ''abc123'')
             scenario_analysis [''Project Introduction''] scenario_world))
     = Next ()"
proof -
  have k: "lower ''acme'' @ ''/'' @ lower ''widgets'' = ''acme/widgets''" by code_simp
  have ne: "''https://github.com/acme/widgets'' \<noteq> lower ''acme'' @ ''/'' @ lower ''widgets''"
    unfolding k by simp
  have miss: "fst (step4_cache scenario_env ''acme/widgets'' (Some ''abc123'') scenario_world) = Next ()"
    by (simp add: step4_cache_def get_from_cache_def scenario_env_def scenario_world_def)
  have put: "cache_table (step10_save scenario_env ''https://github.com/acme/widgets'' (Some ''abc123'')
       scenario_analysis [''Project Introduction''] scenario_world)
     (''https://github.com/acme/widgets'', ''abc123'')
     = Some \<lparr>ci_analysis = scenario_analysis, ci_suggestions = [''Project Introduction''],
             ci_created_at = 0, ci_ttl = 604800\<rparr>"
    by (simp add: step10_save_def save_to_cache_def scenario_env_def scenario_world_def
        log_call_def CACHE_TTL_DAYS_def)
  from cache_write_misses_lookup_key [OF ne, of scenario_env "Some ''abc123''" scenario_analysis
      "[''Project Introduction'']" scenario_world]
  have "fst (step4_cache scenario_env ''acme/widgets'' (Some ''abc123'')
          (step10_save scenario_env ''https://github.com/acme/widgets'' (Some ''abc123'')
             scenario_analysis [''Project Introduction''] scenario_world)) = Next ()"
    unfolding k miss .
  with put show ?thesis by (rule conjI)
qed

text \<open>
  Claim C3. When commit resolution fails the run goes on without caching (no lookup, no
  write); when it succeeds the commit identifier is taken from the collaborator's response
  and used for the cache. The first half holds. For the second the code reads the key
  \<open>"sha"\<close> from a response whose data holds only \<open>"latest_commit_sha"\<close>: every 200 reply of
  the commit lookup ends step 3 with \<open>KeyError\<close>.
\<close>

theorem commit_sha_key_mismatch:
  "(http_commit e owner repo default_branch = Reply 200 sha \<longrightarrow>
      get_latest_commit_sha e owner repo default_branch
        = \<lparr>statusCode = 200, body = DataBody (Some [(''latest_commit_sha'', sha)])\<rparr> \<and>
      step3_commit e owner repo default_branch w = (Raise KeyError, log_call CommitCall w)) \<and>
   (statusCode (get_latest_commit_sha e owner repo default_branch) \<noteq> 200 \<longrightarrow>
      step3_commit e owner repo default_branch w = (Next None, log_call CommitCall w)) \<and>
   step4_cache e cache_key None w = (Next (), w) \<and>
   step10_save e github_url None an suggestions w = w"
  by (simp add: step3_commit_def get_latest_commit_sha_def create_response_def getitem_def
      step4_cache_def step10_save_def)

theorem commit_sha_key_mismatch_witness:
  "step3_commit scenario_env ''acme'' ''widgets'' (Some ''main'') scenario_world
     = (Raise KeyError, \<lparr>cache_table = Map.empty, calls = [CommitCall]\<rparr>)"
proof -
  have r: "http_commit scenario_env ''acme'' ''widgets'' (Some ''main'') = Reply 200 (Some ''abc123'')"
    by (simp add: scenario_env_def)
  from commit_sha_key_mismatch [of scenario_env "''acme''" "''widgets''" "Some ''main''"
      "Some ''abc123''" scenario_world] r
  show ?thesis by (simp add: log_call_def scenario_world_def)
qed

text \<open>
  Claim C4. The extension-based fallback is tried only when the rule-based and hybrid
  selection is empty, a selection that is not empty is passed on unchanged with its method,
  and an empty result of all three strategies on a tree that is not empty gives
  \<open>NO_ANALYZABLE_FILES\<close>. The code reads \<open>fallback_files\<close> in every run, and assigns it only
  when the selection is empty: a selection that is not empty ends the stage with
  \<open>UnboundLocalError\<close>. On an empty selection the stage does what the claim says.
\<close>

theorem fallback_reads_unbound_local:
  "(high_value_files \<noteq> [] \<longrightarrow>
      step6_fallback all_files file_count (high_value_files, selection_method)
        = Raise UnboundLocalError) \<and>
   (file_count > 0 \<longrightarrow>
      step6_fallback all_files file_count ([], selection_method)
        = (let fallback_files =
                 slice_to (map path (filter (\<lambda>f. list_ex (\<lambda>ext. suffix ext (path f))
                                                     fallback_extensions) all_files)) 5
           in if fallback_files \<noteq> [] then Next (fallback_files, ''fallback'')
              else Return (StatusResult 400 (ErrorCode ''NO_ANALYZABLE_FILES''))))"
  by (simp add: step6_fallback_def Let_def)

theorem fallback_reads_unbound_local_witness:
  "step6_fallback scenario_a_tree 3 ([''package.json'', ''src/index.js''], ''rule-based'')
     = Raise UnboundLocalError"
  using fallback_reads_unbound_local [of "[''package.json'', ''src/index.js'']" scenario_a_tree 3
      "''rule-based''"]
  by simp

lemma ai_selector_logged:
  "length (get_high_value_files all_files 10) < MIN_FILES_THRESHOLD \<Longrightarrow>
   calls (snd (step6_hybrid e all_files w)) = calls w @ [AiSelectCall]"
  by (simp add: step6_hybrid_def Let_def log_call_def split: sum.splits)

lemma hybrid_stage_keeps_rule_based:
  "5 \<le> length (get_high_value_files all_files 10) \<Longrightarrow>
   step6_hybrid e all_files w = (Next (get_high_value_files all_files 10, ''rule-based''), w)"
  by (simp add: step6_hybrid_def Let_def MIN_FILES_THRESHOLD_def)

text \<open>
  Claim C7. For every tree in which the rule-based selection yields at least 5 paths, the
  hybrid selector accepts that selection with the method \<open>rule-based\<close>, and the AI-assisted
  selector is never invoked. The second half holds: lines 211 to 229 keep the selection
  and its method and leave the state, with its record of the calls made, as it was. The
  first does not: the selector's next lines (232 to 239) read \<open>fallback_files\<close>, which is
  assigned only for an empty selection, so for every such tree step 6 ends with
  \<open>UnboundLocalError\<close> and the selection is never passed on.
\<close>

theorem rule_based_selection_not_accepted:
  "5 \<le> length (get_high_value_files all_files 10) \<Longrightarrow>
   step6_hybrid e all_files w = (Next (get_high_value_files all_files 10, ''rule-based''), w) \<and>
   calls (snd (step6_hybrid e all_files w)) = calls w \<and>
   and_then (step6_hybrid e all_files w)
     (\<lambda>selection w'. (step6_fallback all_files file_count selection, w'))
     = (Raise UnboundLocalError, w)"
proof -
  assume h: "5 \<le> length (get_high_value_files all_files 10)"
  then have ne: "get_high_value_files all_files 10 \<noteq> []" by auto
  have hyb: "step6_hybrid e all_files w
               = (Next (get_high_value_files all_files 10, ''rule-based''), w)"
    using h by (rule hybrid_stage_keeps_rule_based)
  have fb: "step6_fallback all_files file_count (get_high_value_files all_files 10, ''rule-based'')
              = Raise UnboundLocalError"
    using ne by (simp add: step6_fallback_def Let_def)
  show ?thesis by (simp add: hyb fb)
qed

theorem rule_based_selection_not_accepted_witness:
  "step6_hybrid scenario_env five_file_tree scenario_world
     = (Next ([''package.json'', ''README.md'', ''src/index.js'', ''src/app.js'', ''Dockerfile''],
              ''rule-based''), scenario_world) \<and>
   and_then (step6_hybrid scenario_env five_file_tree scenario_world)
     (\<lambda>selection w'. (step6_fallback five_file_tree 5 selection, w'))
     = (Raise UnboundLocalError, scenario_world)"
proof -
  have v: "get_high_value_files five_file_tree 10
             = [''package.json'', ''README.md'', ''src/index.js'', ''src/app.js'', ''Dockerfile'']"
    by code_simp
  have h: "5 \<le> length (get_high_value_files five_file_tree 10)"
    unfolding v by simp
  from rule_based_selection_not_accepted [OF h, of scenario_env scenario_world 5]
  have "step6_hybrid scenario_env five_file_tree scenario_world
          = (Next (get_high_value_files five_file_tree 10, ''rule-based''), scenario_world)"
    and "and_then (step6_hybrid scenario_env five_file_tree scenario_world)
           (\<lambda>selection w'. (step6_fallback five_file_tree 5 selection, w'))
          = (Raise UnboundLocalError, scenario_world)"
    by (rule conjunct1, rule conjunct2 [THEN conjunct2])
  then show ?thesis unfolding v by (rule conjI)
qed

text \<open>
  Claim C8. Whenever the AI-assisted selector is consulted, every path it returns that is
  not a path of the tree is dropped before the merge, so the selection holds only paths of
  the tree: what \<open>select_important_files\<close> returns, what the hybrid stage selects, and what
  the fallback stage passes on are all within the tree's paths. \<open>list(set(...))\<close> is taken
  to enumerate exactly the elements of its argument.
\<close>

theorem hybrid_selection_within_tree:
  "set_order_ok e \<Longrightarrow>
   (\<forall>ai. select_important_files e all_files 10 = Inr ai \<longrightarrow> set ai \<subseteq> set (map path all_files)) \<and>
   (\<forall>sel m w'. step6_hybrid e all_files w = (Next (sel, m), w')
        \<longrightarrow> set sel \<subseteq> set (map path all_files)) \<and>
   (\<forall>file_count sel m sel' m'. step6_fallback all_files file_count (sel, m) = Next (sel', m')
        \<longrightarrow> set sel' \<subseteq> set (map path all_files))"
proof (intro conjI allI impI)
  fix ai
  assume "select_important_files e all_files 10 = Inr ai"
  then show "set ai \<subseteq> set (map path all_files)" by (rule select_important_files_in_tree)
next
  fix file_count sel m sel' m'
  assume "step6_fallback all_files file_count (sel, m) = Next (sel', m')"
  then show "set sel' \<subseteq> set (map path all_files)" by (rule step6_fallback_in_tree)
next
  fix sel m w'
  assume ok: "set_order_ok e"
  assume run: "step6_hybrid e all_files w = (Next (sel, m), w')"
  let ?hv = "get_high_value_files all_files 10"
  have hv: "set ?hv \<subseteq> set (map path all_files)" by (rule get_high_value_files_in_tree)
  show "set sel \<subseteq> set (map path all_files)"
  proof (cases "sel = ?hv")
    case True
    with hv show ?thesis by simp
  next
    case False
    with run obtain ai where ai: "select_important_files e all_files 10 = Inr ai"
      and sel: "sel = slice_to (list_of_set e (?hv @ ai)) 10"
      by (auto simp: step6_hybrid_def Let_def split: if_splits sum.splits)
    from ai have "set ai \<subseteq> set (map path all_files)" by (rule select_important_files_in_tree)
    moreover from ok have "set (list_of_set e (?hv @ ai)) = set (?hv @ ai)"
      by (simp add: set_order_ok_def)
    moreover have "set sel \<subseteq> set (list_of_set e (?hv @ ai))"
      unfolding sel by (rule set_slice_to)
    ultimately show ?thesis using hv by auto
  qed
qed


theorem hybrid_selection_within_tree_witness:
  "step6_hybrid scenario_env scenario_a_tree scenario_world
     = (Next ([''package.json'', ''src/index.js'', ''node_modules/x.js''], ''hybrid''),
        \<lparr>cache_table = Map.empty, calls = [AiSelectCall]\<rparr>) \<and>
   set [''package.json'', ''src/index.js'', ''node_modules/x.js''] \<subseteq> set (map path scenario_a_tree)"
proof -
  have ok: "set_order_ok scenario_env"
    by (simp add: set_order_ok_def scenario_env_def)
  have v: "get_high_value_files scenario_a_tree 10 = [''package.json'', ''src/index.js'']"
    by code_simp
  have t: "map path (filter (\<lambda>f. path f \<noteq> []) scenario_a_tree)
             = [''package.json'', ''src/index.js'', ''node_modules/x.js'']"
    by (simp add: scenario_a_tree_def)
  have ai: "select_important_files scenario_env scenario_a_tree 10 = Inr [''node_modules/x.js'']"
    by (simp add: select_important_files_def t scenario_env_def)
  have run: "step6_hybrid scenario_env scenario_a_tree scenario_world
     = (Next ([''package.json'', ''src/index.js'', ''node_modules/x.js''], ''hybrid''),
        \<lparr>cache_table = Map.empty, calls = [AiSelectCall]\<rparr>)"
    by (simp add: step6_hybrid_def v ai MIN_FILES_THRESHOLD_def slice_to_def log_call_def
        scenario_world_def) (simp add: scenario_env_def)
  from hybrid_selection_within_tree [OF ok, of scenario_a_tree scenario_world] run
  have "set [''package.json'', ''src/index.js'', ''node_modules/x.js''] \<subseteq> set (map path scenario_a_tree)"
    by blast
  with run show ?thesis by (rule conjI)
qed

text \<open>
  Claim C9. In the content-fetch stage a file whose fetch fails is left out while the
  others are still fetched, and \<open>NO_FILE_CONTENT_FETCHED\<close> is returned exactly when no
  content was fetched. The code calls \<open>get_file_content\<close> with the keyword \<open>file_path\<close>,
  which is not one of its parameters: for every selection that is not empty the stage ends
  with \<open>TypeError\<close> at the first file, before any fetch.
\<close>

theorem content_fetch_raises:
  "high_value_files \<noteq> [] \<Longrightarrow>
   step7_fetch e owner repo high_value_files w = (Raise TypeError, w)"
  by (cases high_value_files) (simp_all add: step7_fetch_def call_get_file_content_raises)

theorem content_fetch_raises_witness:
  "step7_fetch scenario_env ''acme'' ''widgets'' [''package.json'', ''src/index.js''] scenario_world
     = (Raise TypeError, scenario_world)"
  using content_fetch_raises [of "[''package.json'', ''src/index.js'']" scenario_env "''acme''"
      "''widgets''" scenario_world]
  by simp

text \<open>
  Claim C10. For a file whose content exceeds 100,000 characters the content lookup
  returns a 200 response with the skipped marker, the reason \<open>FILE_TOO_LARGE\<close> and no
  content, and the orchestrator leaves the file out of the content map instead of treating
  it as an error. The lookup does so; the orchestrator's call of it (line 256) raises
  \<open>TypeError\<close> for such a file as for every other.
\<close>

theorem large_file_marked_then_call_raises:
  "http_content e owner repo p = Reply 200 content \<Longrightarrow> 100000 < length content \<Longrightarrow>
   get_file_content e owner repo p 100000
     = \<lparr>statusCode = 200,
        body = DataBody (Some \<lparr>cd_path = p, cd_content = None, cd_size = int (length content),
                               cd_skipped = True, cd_reason = Some ''FILE_TOO_LARGE''\<rparr>)\<rparr> \<and>
   step7_fetch e owner repo [p] w = (Raise TypeError, w)"
  by (simp add: get_file_content_def create_response_def step7_fetch_def
      call_get_file_content_raises)

theorem large_file_marked_then_call_raises_witness:
  "get_file_content scenario_env ''acme'' ''widgets'' ''src/index.js'' 100000
     = \<lparr>statusCode = 200,
        body = DataBody (Some \<lparr>cd_path = ''src/index.js'', cd_content = None, cd_size = 100001,
                               cd_skipped = True, cd_reason = Some ''FILE_TOO_LARGE''\<rparr>)\<rparr> \<and>
   step7_fetch scenario_env ''acme'' ''widgets'' [''src/index.js''] scenario_world
     = (Raise TypeError, scenario_world)"
proof -
  have r: "http_content scenario_env ''acme'' ''widgets'' ''src/index.js''
             = Reply 200 (replicate 100001 CHR ''x'')"
    by (simp add: scenario_env_def)
  have l: "100000 < length (replicate 100001 CHR ''x'')" by simp
  from large_file_marked_then_call_raises [OF r l, of scenario_world]
  show ?thesis by simp
qed

end
